theory Spec2Isabelle
  imports Main
begin

section \<open>Values held by Go's empty interface\<close>

text \<open>
  The result tree of a response is what \<^verbatim>\<open>encoding/json\<close> stores in an \<^verbatim>\<open>interface{}\<close>:
  nil, a bool, a number, a string, a slice of such values or a map from strings to such
  values. The numbers are never inspected by the code; their type is the parameter \<open>'n\<close>.
  A slice is a list (a nil slice and an empty slice both have length 0 and are the empty
  list), a map is a partial function on its keys.
\<close>

datatype 'n iface =
    INil
  | IBool bool
  | INum 'n
  | IStr string
  | ISlice "'n iface list"
  | IMap "string \<Rightarrow> 'n iface option"

text \<open>
  A run-time panic of the Go program: indexing a slice out of range (with the index and
  the length of the slice) and assigning to an entry of a nil map. A function that can
  panic returns \<open>panic + 'a\<close>, with \<open>Inl\<close> the panic.
\<close>

datatype panic = IndexOutOfRange int nat | AssignmentToNilMap

text \<open>\<^verbatim>\<open>a[index]\<close> on a slice: Go panics unless \<open>0 \<le> index < len(a)\<close>.\<close>

definition slice_index :: "'a list \<Rightarrow> int \<Rightarrow> panic + 'a" where
  "slice_index a index =
     (if 0 \<le> index \<and> index < int (length a) then Inr (a ! nat index)
      else Inl (IndexOutOfRange index (length a)))"

section \<open>The response envelope (response.go)\<close>

record message =
  msg_Type :: string
  msg_Message :: string
  msg_Code :: int
  msg_Name :: string

record 'n result =
  res_Count :: int
  res_Truncated :: bool
  res_Messages :: "message option list"
  res_Result :: "'n iface"
  res_Summary :: string
  res_Value :: string

text \<open>The fields \<^verbatim>\<open>Error\<close> and \<^verbatim>\<open>Result\<close> are pointers: \<open>None\<close> is nil.\<close>

record 'n response =
  resp_Error :: "message option"
  resp_Result :: "'n result option"
  resp_Version :: string
  resp_Principal :: string

subsection \<open>Accessors on the payload\<close>

definition BoolResult :: "'n response \<Rightarrow> bool" where
  "BoolResult r =
     (case resp_Result r of
        None \<Rightarrow> False
      | Some res \<Rightarrow> (case res_Result res of IBool v \<Rightarrow> v | _ \<Rightarrow> False))"

definition CountResults :: "'n response \<Rightarrow> int" where
  "CountResults r =
     (case resp_Result r of
        None \<Rightarrow> - 1
      | Some res \<Rightarrow> (case res_Result res of ISlice a \<Rightarrow> int (length a) | _ \<Rightarrow> - 1))"

text \<open>
  A pair \<^verbatim>\<open>(x, ok)\<close> whose only failing value is \<^verbatim>\<open>(nil, false)\<close> is an option:
  \<open>None\<close> is \<^verbatim>\<open>(nil, false)\<close>, \<open>Some x\<close> is \<^verbatim>\<open>(x, true)\<close>.
\<close>

definition DictAtIndex :: "'n response \<Rightarrow> int \<Rightarrow> panic + (string \<Rightarrow> 'n iface option) option" where
  "DictAtIndex r index =
     (case resp_Result r of
        None \<Rightarrow> Inr None
      | Some res \<Rightarrow>
          (case res_Result res of
             ISlice a \<Rightarrow>
               if int (length a) < index then Inr None
               else (case slice_index a index of
                       Inl p \<Rightarrow> Inl p
                     | Inr d \<Rightarrow> (case d of IMap dict \<Rightarrow> Inr (Some dict) | _ \<Rightarrow> Inr None))
           | _ \<Rightarrow> Inr None))"

definition Dict :: "'n response \<Rightarrow> (string \<Rightarrow> 'n iface option) option" where
  "Dict r =
     (case resp_Result r of
        None \<Rightarrow> None
      | Some res \<Rightarrow> (case res_Result res of IMap dict \<Rightarrow> Some dict | _ \<Rightarrow> None))"

text \<open>
  The last steps of \<^verbatim>\<open>Get\<close> and \<^verbatim>\<open>GetAtIndex\<close>: look the key up and wrap a value
  that is not a slice into a slice of one element.
\<close>

definition lookup_key :: "(string \<Rightarrow> 'n iface option) \<Rightarrow> string \<Rightarrow> 'n iface list option" where
  "lookup_key dict key =
     (case dict key of
        None \<Rightarrow> None
      | Some v \<Rightarrow> (case v of ISlice a \<Rightarrow> Some a | _ \<Rightarrow> Some [v]))"

definition GetAtIndex :: "'n response \<Rightarrow> int \<Rightarrow> string \<Rightarrow> panic + 'n iface list option" where
  "GetAtIndex r index key =
     (case DictAtIndex r index of
        Inl p \<Rightarrow> Inl p
      | Inr None \<Rightarrow> Inr None
      | Inr (Some dict) \<Rightarrow> Inr (lookup_key dict key))"

definition Get :: "'n response \<Rightarrow> string \<Rightarrow> 'n iface list option" where
  "Get r key =
     (case Dict r of
        None \<Rightarrow> None
      | Some dict \<Rightarrow> lookup_key dict key)"

text \<open>
  The second copy of response.go in the source has no \<^verbatim>\<open>DictAtIndex\<close> and no \<^verbatim>\<open>Dict\<close>:
  its \<^verbatim>\<open>GetAtIndex\<close> and \<^verbatim>\<open>Get\<close> do every step themselves.
\<close>

definition GetAtIndex2 :: "'n response \<Rightarrow> int \<Rightarrow> string \<Rightarrow> panic + 'n iface list option" where
  "GetAtIndex2 r index key =
     (case resp_Result r of
        None \<Rightarrow> Inr None
      | Some res \<Rightarrow>
          (case res_Result res of
             ISlice a \<Rightarrow>
               if int (length a) < index then Inr None
               else (case slice_index a index of
                       Inl p \<Rightarrow> Inl p
                     | Inr d \<Rightarrow>
                         (case d of
                            IMap dict \<Rightarrow>
                              (case dict key of
                                 None \<Rightarrow> Inr None
                               | Some v \<Rightarrow> (case v of ISlice a' \<Rightarrow> Inr (Some a') | _ \<Rightarrow> Inr (Some [v])))
                          | _ \<Rightarrow> Inr None))
           | _ \<Rightarrow> Inr None))"

definition Get2 :: "'n response \<Rightarrow> string \<Rightarrow> 'n iface list option" where
  "Get2 r key =
     (case resp_Result r of
        None \<Rightarrow> None
      | Some res \<Rightarrow>
          (case res_Result res of
             IMap dict \<Rightarrow>
               (case dict key of
                  None \<Rightarrow> None
                | Some v \<Rightarrow> (case v of ISlice a \<Rightarrow> Some a | _ \<Rightarrow> Some [v]))
           | _ \<Rightarrow> None))"

subsection \<open>Typed projections\<close>

text \<open>
  The library functions the projections call: \<^verbatim>\<open>base64.StdEncoding.DecodeString\<close>
  and \<^verbatim>\<open>time.Parse\<close> (\<open>None\<close> is their error) and the zero value \<^verbatim>\<open>time.Time{}\<close>.
  They are parameters of the model; \<open>'t\<close> is the type \<^verbatim>\<open>time.Time\<close>.
\<close>

record 't stdlib =
  base64_DecodeString :: "string \<Rightarrow> string option"
  time_Parse :: "string \<Rightarrow> string \<Rightarrow> 't option"
  time_zero :: 't

definition LDAPGeneralizedTimeFormat :: string where
  "LDAPGeneralizedTimeFormat = ''20060102150405Z''"

definition processBool :: "'n iface \<Rightarrow> bool \<times> bool" where
  "processBool v = (case v of IBool a \<Rightarrow> (a, True) | _ \<Rightarrow> (False, False))"

definition GetBoolAtIndex :: "'n response \<Rightarrow> int \<Rightarrow> string \<Rightarrow> panic + bool \<times> bool" where
  "GetBoolAtIndex r index key =
     (case GetAtIndex r index key of
        Inl p \<Rightarrow> Inl p
      | Inr None \<Rightarrow> Inr (False, False)
      | Inr (Some v) \<Rightarrow> if length v < 1 then Inr (False, False) else Inr (processBool (v ! 0)))"

definition GetBool :: "'n response \<Rightarrow> string \<Rightarrow> bool \<times> bool" where
  "GetBool r key =
     (case Get r key of
        None \<Rightarrow> (False, False)
      | Some v \<Rightarrow> if length v < 1 then (False, False) else processBool (v ! 0))"

text \<open>
  The loop of \<^verbatim>\<open>processString\<close>, from the strings \<open>res\<close> collected so far: at the
  first element that is not a string it returns what it has collected, and false.
\<close>

fun processString_loop :: "string list \<Rightarrow> 'n iface list \<Rightarrow> string list \<times> bool" where
  "processString_loop res [] = (res, True)"
| "processString_loop res (p # ps) =
     (case p of IStr s \<Rightarrow> processString_loop (res @ [s]) ps | _ \<Rightarrow> (res, False))"

definition processString :: "'n iface list \<Rightarrow> string list \<times> bool" where
  "processString v = processString_loop [] v"

definition GetStringsAtIndex :: "'n response \<Rightarrow> int \<Rightarrow> string \<Rightarrow> panic + string list \<times> bool" where
  "GetStringsAtIndex r index key =
     (case GetAtIndex r index key of
        Inl p \<Rightarrow> Inl p
      | Inr None \<Rightarrow> Inr ([], False)
      | Inr (Some v) \<Rightarrow> Inr (processString v))"

definition GetStrings :: "'n response \<Rightarrow> string \<Rightarrow> string list \<times> bool" where
  "GetStrings r key =
     (case Get r key of
        None \<Rightarrow> ([], False)
      | Some v \<Rightarrow> processString v)"

definition GetStringAtIndex :: "'n response \<Rightarrow> int \<Rightarrow> string \<Rightarrow> panic + string \<times> bool" where
  "GetStringAtIndex r index key =
     (case GetStringsAtIndex r index key of
        Inl p \<Rightarrow> Inl p
      | Inr (v, ok) \<Rightarrow> if \<not> ok \<or> length v < 1 then Inr ([], False) else Inr (v ! 0, True))"

definition GetString :: "'n response \<Rightarrow> string \<Rightarrow> string \<times> bool" where
  "GetString r key =
     (case GetStrings r key of
        (v, ok) \<Rightarrow> if \<not> ok \<or> length v < 1 then ([], False) else (v ! 0, True))"

text \<open>One round of the loop of \<^verbatim>\<open>processData\<close>: the bytes of one element, if it has any.\<close>

definition data_of :: "'t stdlib \<Rightarrow> 'n iface \<Rightarrow> string option" where
  "data_of L p =
     (case p of
        IMap dict \<Rightarrow>
          (case dict ''__base64__'' of
             None \<Rightarrow> None
           | Some b \<Rightarrow> (case b of IStr s \<Rightarrow> base64_DecodeString L s | _ \<Rightarrow> None))
      | _ \<Rightarrow> None)"

fun processData_loop :: "'t stdlib \<Rightarrow> string list \<Rightarrow> 'n iface list \<Rightarrow> string list \<times> bool" where
  "processData_loop L res [] = (res, True)"
| "processData_loop L res (p # ps) =
     (case data_of L p of
        None \<Rightarrow> (res, False)
      | Some bytes \<Rightarrow> processData_loop L (res @ [bytes]) ps)"

definition processData :: "'t stdlib \<Rightarrow> 'n iface list \<Rightarrow> string list \<times> bool" where
  "processData L v = processData_loop L [] v"

definition GetDatasAtIndex ::
  "'t stdlib \<Rightarrow> 'n response \<Rightarrow> int \<Rightarrow> string \<Rightarrow> panic + string list \<times> bool" where
  "GetDatasAtIndex L r index key =
     (case GetAtIndex r index key of
        Inl p \<Rightarrow> Inl p
      | Inr None \<Rightarrow> Inr ([], False)
      | Inr (Some v) \<Rightarrow> Inr (processData L v))"

definition GetDatas :: "'t stdlib \<Rightarrow> 'n response \<Rightarrow> string \<Rightarrow> string list \<times> bool" where
  "GetDatas L r key =
     (case Get r key of
        None \<Rightarrow> ([], False)
      | Some v \<Rightarrow> processData L v)"

definition GetDataAtIndex ::
  "'t stdlib \<Rightarrow> 'n response \<Rightarrow> int \<Rightarrow> string \<Rightarrow> panic + string \<times> bool" where
  "GetDataAtIndex L r index key =
     (case GetDatasAtIndex L r index key of
        Inl p \<Rightarrow> Inl p
      | Inr (v, ok) \<Rightarrow> if \<not> ok \<or> length v < 1 then Inr ([], False) else Inr (v ! 0, True))"

definition GetData :: "'t stdlib \<Rightarrow> 'n response \<Rightarrow> string \<Rightarrow> string \<times> bool" where
  "GetData L r key =
     (case GetDatas L r key of
        (v, ok) \<Rightarrow> if \<not> ok \<or> length v < 1 then ([], False) else (v ! 0, True))"

text \<open>One round of the loop of \<^verbatim>\<open>processDateTime\<close>.\<close>

definition datetime_of :: "'t stdlib \<Rightarrow> 'n iface \<Rightarrow> 't option" where
  "datetime_of L p =
     (case p of
        IMap dict \<Rightarrow>
          (case dict ''__datetime__'' of
             None \<Rightarrow> None
           | Some d \<Rightarrow>
               (case d of IStr s \<Rightarrow> time_Parse L LDAPGeneralizedTimeFormat s | _ \<Rightarrow> None))
      | _ \<Rightarrow> None)"

fun processDateTime_loop :: "'t stdlib \<Rightarrow> 't list \<Rightarrow> 'n iface list \<Rightarrow> 't list \<times> bool" where
  "processDateTime_loop L res [] = (res, True)"
| "processDateTime_loop L res (p # ps) =
     (case datetime_of L p of
        None \<Rightarrow> (res, False)
      | Some dateTime \<Rightarrow> processDateTime_loop L (res @ [dateTime]) ps)"

definition processDateTime :: "'t stdlib \<Rightarrow> 'n iface list \<Rightarrow> 't list \<times> bool" where
  "processDateTime L v = processDateTime_loop L [] v"

definition GetDateTimesAtIndex ::
  "'t stdlib \<Rightarrow> 'n response \<Rightarrow> int \<Rightarrow> string \<Rightarrow> panic + 't list \<times> bool" where
  "GetDateTimesAtIndex L r index key =
     (case GetAtIndex r index key of
        Inl p \<Rightarrow> Inl p
      | Inr None \<Rightarrow> Inr ([], False)
      | Inr (Some v) \<Rightarrow> Inr (processDateTime L v))"

definition GetDateTimes :: "'t stdlib \<Rightarrow> 'n response \<Rightarrow> string \<Rightarrow> 't list \<times> bool" where
  "GetDateTimes L r key =
     (case Get r key of
        None \<Rightarrow> ([], False)
      | Some v \<Rightarrow> processDateTime L v)"

definition GetDateTimeAtIndex ::
  "'t stdlib \<Rightarrow> 'n response \<Rightarrow> int \<Rightarrow> string \<Rightarrow> panic + 't \<times> bool" where
  "GetDateTimeAtIndex L r index key =
     (case GetDateTimesAtIndex L r index key of
        Inl p \<Rightarrow> Inl p
      | Inr (v, ok) \<Rightarrow>
          if \<not> ok \<or> length v < 1 then Inr (time_zero L, False) else Inr (v ! 0, True))"

definition GetDateTime :: "'t stdlib \<Rightarrow> 'n response \<Rightarrow> string \<Rightarrow> 't \<times> bool" where
  "GetDateTime L r key =
     (case GetDateTimes L r key of
        (v, ok) \<Rightarrow> if \<not> ok \<or> length v < 1 then (time_zero L, False) else (v ! 0, True))"

text \<open>The response \<open>r\<close> with the result \<open>res\<close>, whose payload is replaced by \<open>p\<close>.\<close>

definition with_payload :: "'n response \<Rightarrow> 'n result \<Rightarrow> 'n iface \<Rightarrow> 'n response" where
  "with_payload r res p = r\<lparr>resp_Result := Some (res\<lparr>res_Result := p\<rparr>)\<rparr>"

text \<open>A response whose result holds the payload \<open>p\<close>, every other field empty.\<close>

definition result_of :: "'n iface \<Rightarrow> 'n result" where
  "result_of p =
     \<lparr>res_Count = 0, res_Truncated = False, res_Messages = [], res_Result = p,
      res_Summary = [], res_Value = []\<rparr>"

definition response_of :: "'n iface \<Rightarrow> 'n response" where
  "response_of p =
     \<lparr>resp_Error = None, resp_Result = Some (result_of p), resp_Version = [],
      resp_Principal = []\<rparr>"

definition no_result :: "'n response" where
  "no_result = \<lparr>resp_Error = None, resp_Result = None, resp_Version = [], resp_Principal = []\<rparr>"

definition failing_stdlib :: "nat stdlib" where
  "failing_stdlib =
     \<lparr>base64_DecodeString = (\<lambda>s. None), time_Parse = (\<lambda>layout s. None), time_zero = 0\<rparr>"

section \<open>Errors and formatting (package fmt)\<close>

text \<open>
  A Go \<^verbatim>\<open>error\<close> is known to this program by its message only. \<open>ErrorString\<close> is an
  error made by \<^verbatim>\<open>fmt.Errorf\<close> (no \<^verbatim>\<open>%w\<close> is used, so nothing can be unwrapped from
  it); \<open>LibraryError\<close> is an error that a library call returned (the transport, the JSON
  decoder) and that the program passes on as it is.
\<close>

datatype error = ErrorString string | LibraryError string

fun error_message :: "error \<Rightarrow> string" where
  "error_message (ErrorString s) = s"
| "error_message (LibraryError s) = s"

text \<open>The verbs \<^verbatim>\<open>%d\<close> and \<^verbatim>\<open>%v\<close> on an \<^verbatim>\<open>int\<close>: decimal digits, a minus sign first.\<close>

fun show_nat :: "nat \<Rightarrow> string" where
  "show_nat n =
     (if n < 10 then [''0123456789'' ! n]
      else show_nat (n div 10) @ [''0123456789'' ! (n mod 10)])"

declare show_nat.simps [simp del]

definition show_int :: "int \<Rightarrow> string" where
  "show_int i = (if i < 0 then CHR ''-'' # show_nat (nat (- i)) else show_nat (nat i))"

text \<open>
  \<^verbatim>\<open>fmt.Sprintf(format)\<close> and \<^verbatim>\<open>fmt.Errorf(format)\<close> with a format that is not a
  constant and no operand at all, as \<^verbatim>\<open>ParseResponse\<close> calls it: the loop
  \<^verbatim>\<open>doPrintf\<close> of the library copies the format up to each \<^verbatim>\<open>%\<close>, reads flags, an
  argument index, a width and a precision, and then, having no operand, writes
  \<^verbatim>\<open>%\<close> for the verb \<^verbatim>\<open>%\<close>, \<^verbatim>\<open>%!(NOVERB)\<close> at the end of the format,
  \<^verbatim>\<open>%!v(BADINDEX)\<close> after an argument index and \<^verbatim>\<open>%!v(MISSING)\<close> otherwise, for the
  verb \<^verbatim>\<open>v\<close>.
\<close>

definition byte_in :: "nat \<Rightarrow> nat \<Rightarrow> char \<Rightarrow> bool" where
  "byte_in lo hi c = (lo \<le> of_char c \<and> (of_char c :: nat) \<le> hi)"

definition is_digit :: "char \<Rightarrow> bool" where
  "is_digit c = byte_in 0x30 0x39 c"

text \<open>
  \<^verbatim>\<open>parsenum(s, start, end)\<close> on the characters from \<open>start\<close> to \<open>end\<close>: the number,
  whether there is one, and the characters left. A number above \<open>10\<^sup>6\<close> with a digit
  after it gives no number and leaves nothing.
\<close>

fun parsenum_loop :: "nat \<Rightarrow> bool \<Rightarrow> string \<Rightarrow> nat \<times> bool \<times> string" where
  "parsenum_loop num isnum [] = (num, isnum, [])"
| "parsenum_loop num isnum (c # cs) =
     (if is_digit c then
        (if num > 1000000 then (0, False, [])
         else parsenum_loop (num * 10 + (of_char c - 0x30)) True cs)
      else (num, isnum, c # cs))"

definition parsenum :: "string \<Rightarrow> nat \<times> bool \<times> string" where
  "parsenum s = (if s = [] then (0, False, []) else parsenum_loop 0 False s)"

text \<open>
  \<^verbatim>\<open>parseArgNumber(format)\<close> on a format that starts with \<^verbatim>\<open>[\<close>: how many characters
  the index takes and whether it is a number in brackets.
\<close>

definition parseArgNumber :: "string \<Rightarrow> nat \<times> bool" where
  "parseArgNumber format =
     (if length format < 3 then (1, False)
      else if CHR '']'' \<in> set (tl format) then
        (let inside = takeWhile (\<lambda>c. c \<noteq> CHR '']'') (tl format);
             i = 1 + length inside
         in (case parsenum inside of
               (width, ok, rest) \<Rightarrow> if \<not> ok \<or> rest \<noteq> [] then (i + 1, False) else (i + 1, True)))
      else (1, False))"

text \<open>
  \<^verbatim>\<open>argNumber\<close> with no operand: the format after an argument index, whether an index
  was found, and \<^verbatim>\<open>goodArgNum\<close>, which an index always clears as no index is below the
  number of operands.
\<close>

definition argNumber :: "string \<Rightarrow> bool \<Rightarrow> string \<times> bool \<times> bool" where
  "argNumber format goodArgNum =
     (case format of
        [] \<Rightarrow> (format, False, goodArgNum)
      | c # cs \<Rightarrow>
          if c \<noteq> CHR ''['' then (format, False, goodArgNum)
          else (case parseArgNumber format of (wid, ok) \<Rightarrow> (drop wid format, ok, False)))"

text \<open>
  \<^verbatim>\<open>utf8.DecodeRuneInString\<close>, as far as the printing of a verb needs it: the number of
  bytes of the rune at the head of the string, \<open>None\<close> where the bytes are no UTF-8
  encoding (the rune is then U+FFFD, of width 1).
\<close>

definition rune_size :: "string \<Rightarrow> nat option" where
  "rune_size s =
     (case s of
        [] \<Rightarrow> None
      | c0 # cs \<Rightarrow>
          (let b = (of_char c0 :: nat) in
           if b < 0x80 then Some 1
           else if b < 0xC2 \<or> 0xF4 < b then None
           else
             (let sz = (if b < 0xE0 then 2 else if b < 0xF0 then 3 else 4 :: nat);
                  lo = (if b = 0xE0 then 0xA0 else if b = 0xF0 then 0x90 else 0x80);
                  hi = (if b = 0xED then 0x9F else if b = 0xF4 then 0x8F else 0xBF)
              in if length s < sz then None
                 else if \<not> byte_in lo hi (cs ! 0) then None
                 else if sz \<le> 2 then Some 2
                 else if \<not> byte_in 0x80 0xBF (cs ! 1) then None
                 else if sz \<le> 3 then Some 3
                 else if \<not> byte_in 0x80 0xBF (cs ! 2) then None
                 else Some 4)))"

text \<open>The verb at the head of a format that is not empty: its bytes as written, and the rest.\<close>

definition take_verb :: "string \<Rightarrow> string \<times> string" where
  "take_verb format =
     (case rune_size format of
        None \<Rightarrow> ([CHR 0xEF, CHR 0xBF, CHR 0xBD], drop 1 format)
      | Some n \<Rightarrow> (take n format, drop n format))"

text \<open>
  The three steps between the flags and the verb. Each takes the format left, whether the
  last thing read was an argument index (\<^verbatim>\<open>afterIndex\<close>) and \<^verbatim>\<open>goodArgNum\<close>, and
  returns what it writes and the three again. With no operand a width or a precision
  \<^verbatim>\<open>*\<close> finds no integer.
\<close>

definition width_step :: "string \<Rightarrow> bool \<Rightarrow> bool \<Rightarrow> string \<times> string \<times> bool \<times> bool" where
  "width_step format afterIndex goodArgNum =
     (case format of
        [] \<Rightarrow> ([], [], afterIndex, goodArgNum)
      | c # cs \<Rightarrow>
          if c = CHR ''*'' then (''%!(BADWIDTH)'', cs, False, goodArgNum)
          else (case parsenum format of
                  (wid, widPresent, rest) \<Rightarrow>
                    ([], rest, afterIndex, goodArgNum \<and> \<not> (afterIndex \<and> widPresent))))"

definition precision_step :: "string \<Rightarrow> bool \<Rightarrow> bool \<Rightarrow> string \<times> string \<times> bool \<times> bool" where
  "precision_step format afterIndex goodArgNum =
     (case format of
        [] \<Rightarrow> ([], [], afterIndex, goodArgNum)
      | c # cs \<Rightarrow>
          if c = CHR ''.'' then
            (case argNumber cs (goodArgNum \<and> \<not> afterIndex) of
               (format', afterIndex', goodArgNum') \<Rightarrow>
                 (case format' of
                    [] \<Rightarrow> ([], [], afterIndex', goodArgNum')
                  | c' # cs' \<Rightarrow>
                      if c' = CHR ''*'' then (''%!(BADPREC)'', cs', False, goodArgNum')
                      else (case parsenum format' of
                              (prec, precPresent, rest) \<Rightarrow> ([], rest, afterIndex', goodArgNum'))))
          else ([], format, afterIndex, goodArgNum))"

definition index_step :: "string \<Rightarrow> bool \<Rightarrow> bool \<Rightarrow> string \<times> bool" where
  "index_step format afterIndex goodArgNum =
     (if \<not> afterIndex then
        (case argNumber format goodArgNum of (format', afterIndex', goodArgNum') \<Rightarrow> (format', goodArgNum'))
      else (format, goodArgNum))"

text \<open>
  One verb: \<open>format\<close> is the format after a \<^verbatim>\<open>%\<close>. The result is what is written for
  the verb and the format left after it; at the end of the format the loop stops.
\<close>

definition one_verb :: "string \<Rightarrow> string \<times> string" where
  "one_verb format =
     (case argNumber (dropWhile (\<lambda>c. c \<in> set ''#0+- '') format) True of
        (f2, afterIndex2, good2) \<Rightarrow>
          (case width_step f2 afterIndex2 good2 of
             (out3, f3, afterIndex3, good3) \<Rightarrow>
               (case precision_step f3 afterIndex3 good3 of
                  (out4, f4, afterIndex4, good4) \<Rightarrow>
                    (case index_step f4 afterIndex4 good4 of
                       (f5, good5) \<Rightarrow>
                         if f5 = [] then (out3 @ out4 @ ''%!(NOVERB)'', [])
                         else (case take_verb f5 of
                                 (verb, rest) \<Rightarrow>
                                   if verb = ''%'' then (out3 @ out4 @ ''%'', rest)
                                   else if \<not> good5 then
                                     (out3 @ out4 @ ''%!'' @ verb @ ''(BADINDEX)'', rest)
                                   else (out3 @ out4 @ ''%!'' @ verb @ ''(MISSING)'', rest))))))"

text \<open>A verb leaves no more of the format than it was given.\<close>

lemma parsenum_loop_length: "length (snd (snd (parsenum_loop num isnum s))) \<le> length s"
  by (induction s arbitrary: num isnum) (auto intro: le_SucI)

lemma parsenum_length: "parsenum s = (num, isnum, rest) \<Longrightarrow> length rest \<le> length s"
  using parsenum_loop_length [of 0 False s] by (auto simp: parsenum_def split: if_splits)

lemma argNumber_length: "argNumber s g = (rest, afterIndex, g') \<Longrightarrow> length rest \<le> length s"
  by (auto simp: argNumber_def split: list.splits if_splits prod.splits)

lemma width_step_length:
  "width_step s afterIndex g = (out, rest, afterIndex', g') \<Longrightarrow> length rest \<le> length s"
  by (auto simp: width_step_def split: list.splits if_splits prod.splits dest: parsenum_length)

lemma precision_step_length:
  assumes "precision_step s afterIndex g = (out, rest, afterIndex', g')"
  shows "length rest \<le> length s"
proof (cases s)
  case Nil
  with assms show ?thesis by (simp add: precision_step_def)
next
  case (Cons c cs)
  show ?thesis
  proof (cases "c = CHR ''.''")
    case False
    with Cons assms show ?thesis by (simp add: precision_step_def)
  next
    case True
    obtain f a b where arg: "argNumber cs (g \<and> \<not> afterIndex) = (f, a, b)"
      by (cases "argNumber cs (g \<and> \<not> afterIndex)") auto
    then have f: "length f \<le> length cs" by (rule argNumber_length)
    from assms Cons True arg have "length rest \<le> length f"
      by (auto simp: precision_step_def split: list.splits if_splits prod.splits
               dest: parsenum_length)
    with f Cons show ?thesis by simp
  qed
qed

lemma index_step_length: "index_step s afterIndex g = (rest, g') \<Longrightarrow> length rest \<le> length s"
  by (auto simp: index_step_def split: if_splits prod.splits dest: argNumber_length)

lemma take_verb_length: "take_verb s = (verb, rest) \<Longrightarrow> length rest \<le> length s"
  by (auto simp: take_verb_def split: option.splits)

lemma one_verb_length:
  assumes "one_verb s = (out, rest)"
  shows "length rest \<le> length s"
proof -
  obtain f2 a2 g2 where 2: "argNumber (dropWhile (\<lambda>c. c \<in> set ''#0+- '') s) True = (f2, a2, g2)"
    using prod_cases3 by blast
  obtain o3 f3 a3 g3 where 3: "width_step f2 a2 g2 = (o3, f3, a3, g3)"
    using prod_cases4 by blast
  obtain o4 f4 a4 g4 where 4: "precision_step f3 a3 g3 = (o4, f4, a4, g4)"
    using prod_cases4 by blast
  obtain f5 g5 where 5: "index_step f4 a4 g4 = (f5, g5)"
    by (cases "index_step f4 a4 g4") auto
  obtain verb r where 6: "take_verb f5 = (verb, r)"
    by (cases "take_verb f5") auto
  have "length f2 \<le> length (dropWhile (\<lambda>c. c \<in> set ''#0+- '') s)"
    using 2 by (rule argNumber_length)
  also have "\<dots> \<le> length s" by (rule length_dropWhile_le)
  finally have l2: "length f2 \<le> length s" .
  have l5: "length f5 \<le> length s"
    using l2 width_step_length [OF 3] precision_step_length [OF 4] index_step_length [OF 5]
    by linarith
  have "rest = [] \<or> rest = r"
    using assms 2 3 4 5 6 by (auto simp: one_verb_def split: if_splits)
  with l5 take_verb_length [OF 6] show ?thesis by auto
qed

text \<open>The loop over the format.\<close>

function doPrintf :: "string \<Rightarrow> string" where
  "doPrintf [] = []"
| "doPrintf (c # cs) =
     (if c \<noteq> CHR ''%'' then c # doPrintf cs
      else (case one_verb cs of (out, rest) \<Rightarrow> out @ doPrintf rest))"
  by pat_completeness auto
termination
  by (relation "measure length") (auto simp: less_Suc_eq_le dest: one_verb_length [OF sym])

definition Sprintf0 :: "string \<Rightarrow> string" where
  "Sprintf0 format = doPrintf format"

definition Errorf0 :: "string \<Rightarrow> error" where
  "Errorf0 format = ErrorString (Sprintf0 format)"

section \<open>Parsing a response (response.go)\<close>

text \<open>\<^verbatim>\<open>fmt.Sprintf("%v (%v): %v", t.Name, t.Code, t.Message)\<close>.\<close>

definition Message_string :: "message \<Rightarrow> string" where
  "Message_string t = msg_Name t @ '' ('' @ show_int (msg_Code t) @ ''): '' @ msg_Message t"

text \<open>
  \<^verbatim>\<open>ParseResponse\<close>. The decoder of \<^verbatim>\<open>encoding/json\<close> is the parameter \<open>Decode\<close>: from
  the bytes of the body it gives its error or the response it has filled in, where a field
  that is missing or \<^verbatim>\<open>null\<close> stays nil. The message of an error of the service is
  passed to \<^verbatim>\<open>fmt.Errorf\<close> as its format.
\<close>

definition ParseResponse :: "(string \<Rightarrow> error + 'n response) \<Rightarrow> string \<Rightarrow> error + 'n response" where
  "ParseResponse Decode body =
     (case Decode body of
        Inl err \<Rightarrow> Inl err
      | Inr res \<Rightarrow>
          (case resp_Error res of
             Some e \<Rightarrow> Inl (Errorf0 (Message_string e))
           | None \<Rightarrow>
               (case resp_Result res of
                  None \<Rightarrow> Inl (ErrorString ''no result in response'')
                | Some result \<Rightarrow> Inr res)))"

section \<open>Building a request (request.go)\<close>

definition apiVersion :: string where
  "apiVersion = ''2.237''"

text \<open>
  \<^verbatim>\<open>NewRequest\<close> writes into the map its caller passes. A Go map is a reference: \<open>None\<close>
  is the nil map, \<open>Some a\<close> the map at the address \<open>a\<close> of the store, which holds the
  entries of every map. The two values of \<^verbatim>\<open>Params\<close> are the slice of the arguments
  and that reference.
\<close>

type_synonym addr = nat

type_synonym 'n store = "addr \<Rightarrow> string \<Rightarrow> 'n iface option"

datatype 'n param = PSlice "'n iface list" | PMap "addr option"

record 'n request =
  req_Method :: string
  req_Params :: "'n param list"

definition NewRequest ::
  "'n store \<Rightarrow> string \<Rightarrow> 'n iface list \<Rightarrow> addr option \<Rightarrow> panic + 'n request \<times> 'n store" where
  "NewRequest h method args parms =
     (case parms of
        None \<Rightarrow> Inl AssignmentToNilMap
      | Some a \<Rightarrow>
          (let h' = h(a := (h a)(''version'' \<mapsto> IStr apiVersion))
           in Inr (\<lparr>req_Method = method, req_Params = [PSlice args, PMap parms]\<rparr>, h')))"

section \<open>Rejected logins (errors.go)\<close>

definition InvalidSessionPasswordCode :: int where "InvalidSessionPasswordCode = 1201"
definition PasswordExpiredCode :: int where "PasswordExpiredCode = 1202"
definition KrbPrincipalExpiredCode :: int where "KrbPrincipalExpiredCode = 1203"
definition UserLockedCode :: int where "UserLockedCode = 1204"
definition GenericErrorCode :: int where "GenericErrorCode = 5000"

definition passwordExpiredUnauthorizedReason :: string where
  "passwordExpiredUnauthorizedReason = ''password-expired''"
definition invalidSessionPasswordUnauthorizedReason :: string where
  "invalidSessionPasswordUnauthorizedReason = ''invalid-password''"
definition krbPrincipalExpiredUnauthorizedReason :: string where
  "krbPrincipalExpiredUnauthorizedReason = ''krbprincipal-expired''"
definition userLockedUnauthorizedReason :: string where
  "userLockedUnauthorizedReason = ''user-locked''"
definition rejectionReasonHTTPHeader :: string where
  "rejectionReasonHTTPHeader = ''X-Ipa-Rejection-Reason''"

text \<open>
  An \<^verbatim>\<open>http.Header\<close> maps the canonical name of a header to its values.
  \<^verbatim>\<open>Header.Get\<close> gives the first value, or the empty string; the one name it is asked
  for here is in canonical form already.
\<close>

type_synonym header = "string \<Rightarrow> string list option"

definition Header_Get :: "header \<Rightarrow> string \<Rightarrow> string" where
  "Header_Get h key = (case h key of None \<Rightarrow> [] | Some [] \<Rightarrow> [] | Some (v # vs) \<Rightarrow> v)"

definition Header_Set :: "header \<Rightarrow> string \<Rightarrow> string \<Rightarrow> header" where
  "Header_Set h key v = h(key \<mapsto> [v])"

definition Header_Add :: "header \<Rightarrow> string \<Rightarrow> string \<Rightarrow> header" where
  "Header_Add h key v = h(key \<mapsto> (case h key of None \<Rightarrow> [v] | Some vs \<Rightarrow> vs @ [v]))"

record http_response =
  StatusCode :: int
  Header :: header
  Body :: string

record http_request =
  hr_Method :: string
  hr_URL :: string
  hr_Header :: header
  hr_Body :: "string option"

definition unauthorizedHTTPError :: "http_response \<Rightarrow> error" where
  "unauthorizedHTTPError resp =
     (let rejectionReason = Header_Get (Header resp) rejectionReasonHTTPHeader;
          errorCode =
            (if rejectionReason = passwordExpiredUnauthorizedReason then PasswordExpiredCode
             else if rejectionReason = invalidSessionPasswordUnauthorizedReason
               then InvalidSessionPasswordCode
             else if rejectionReason = krbPrincipalExpiredUnauthorizedReason
               then KrbPrincipalExpiredCode
             else if rejectionReason = userLockedUnauthorizedReason then UserLockedCode
             else GenericErrorCode)
      in ErrorString
           (''unauthorized response <'' @ rejectionReason @ ''> ('' @ show_int errorCode @ '')''))"

section \<open>The client (client.go, request.go)\<close>

text \<open>
  The client: \<open>krb5\<close> is the pointer to the Kerberos client, nil (\<open>None\<close>) for a login
  with a password.
\<close>

record 'k client =
  uriBase :: string
  user :: string
  password :: string
  krb5 :: "'k option"

text \<open>
  What the client calls outside of this repository. The calls over the network take the
  state \<open>'w\<close> of the world (the server, the cookie jar) and return it changed; \<open>'r\<close> is
  the type of what \<^verbatim>\<open>json.Marshal\<close> is given.
\<close>

record ('w, 'k, 'r, 'n) env =
  json_Marshal :: "'r \<Rightarrow> error + string"
  json_Decode :: "string \<Rightarrow> error + 'n response"
  http_NewRequest :: "string \<Rightarrow> string \<Rightarrow> string option \<Rightarrow> error + http_request"
  client_Do :: "http_request \<Rightarrow> 'w \<Rightarrow> (error + http_response) \<times> 'w"
  client_PostForm :: "string \<Rightarrow> (string \<times> string list) list \<Rightarrow> 'w \<Rightarrow> (error + http_response) \<times> 'w"
  spnego_Do :: "'k \<Rightarrow> http_request \<Rightarrow> 'w \<Rightarrow> (error + http_response) \<times> 'w"

definition unexpected_status :: "int \<Rightarrow> error" where
  "unexpected_status code = ErrorString (''unexpected http status code: '' @ show_int code)"

definition loginWithKerberos ::
  "('w, 'k, 'r, 'n) env \<Rightarrow> 'k client \<Rightarrow> 'k \<Rightarrow> 'w \<Rightarrow> error option \<times> 'w" where
  "loginWithKerberos E c k w =
     (case http_NewRequest E ''POST'' (uriBase c @ ''/session/login_kerberos'') None of
        Inl err \<Rightarrow>
          (Some (ErrorString (''error building login request: '' @ error_message err)), w)
      | Inr req \<Rightarrow>
          (case spnego_Do E k (req\<lparr>hr_Header := Header_Add (hr_Header req) ''Referer'' (uriBase c)\<rparr>) w of
             (Inl err, w') \<Rightarrow>
               (Some (ErrorString (''error logging in using Kerberos: '' @ error_message err)), w')
           | (Inr res, w') \<Rightarrow>
               if StatusCode res \<noteq> 200 then (Some (unexpected_status (StatusCode res)), w')
               else (None, w')))"

definition login :: "('w, 'k, 'r, 'n) env \<Rightarrow> 'k client \<Rightarrow> 'w \<Rightarrow> error option \<times> 'w" where
  "login E c w =
     (case krb5 c of
        Some k \<Rightarrow> loginWithKerberos E c k w
      | None \<Rightarrow>
          (case client_PostForm E (uriBase c @ ''/session/login_password'')
                  [(''user'', [user c]), (''password'', [password c])] w of
             (Inl e, w') \<Rightarrow> (Some e, w')
           | (Inr res, w') \<Rightarrow>
               if StatusCode res \<noteq> 200 then
                 (if StatusCode res = 401 then (Some (unauthorizedHTTPError res), w')
                  else (Some (unexpected_status (StatusCode res)), w'))
               else (None, w')))"

definition sendRequest ::
  "('w, 'k, 'r, 'n) env \<Rightarrow> 'k client \<Rightarrow> 'r \<Rightarrow> 'w \<Rightarrow> (error + http_response) \<times> 'w" where
  "sendRequest E c request w =
     (case json_Marshal E request of
        Inl err \<Rightarrow> (Inl err, w)
      | Inr data \<Rightarrow>
          (case http_NewRequest E ''POST'' (uriBase c @ ''/session/json'') (Some data) of
             Inl err \<Rightarrow> (Inl err, w)
           | Inr req \<Rightarrow>
               client_Do E
                 (req\<lparr>hr_Header :=
                    Header_Set
                      (Header_Set
                         (Header_Set (hr_Header req) ''Content-Type'' ''application/json'')
                         ''Accept'' ''application/json'')
                      ''Referer'' (uriBase c)\<rparr>) w))"

text \<open>
  The body of \<^verbatim>\<open>Do\<close>, with the two methods of the client it calls as parameters:
  \<open>send\<close> is \<^verbatim>\<open>c.sendRequest(req)\<close> and \<open>relogin\<close> is \<^verbatim>\<open>c.login()\<close>.
\<close>

definition Do_with ::
  "('w \<Rightarrow> (error + http_response) \<times> 'w) \<Rightarrow> ('w \<Rightarrow> error option \<times> 'w) \<Rightarrow>
   (string \<Rightarrow> error + 'n response) \<Rightarrow> 'w \<Rightarrow> (error + 'n response) \<times> 'w" where
  "Do_with send relogin Decode w =
     (case send w of
        (Inl err, w1) \<Rightarrow> (Inl err, w1)
      | (Inr res, w1) \<Rightarrow>
          (case (if StatusCode res = 401 then
                   (case relogin w1 of
                      (Some err, w2) \<Rightarrow>
                        (Inl (ErrorString (''renewed login failed: '' @ error_message err)), w2)
                    | (None, w2) \<Rightarrow>
                        (case send w2 of
                           (Inl err, w3) \<Rightarrow> (Inl err, w3)
                         | (Inr res', w3) \<Rightarrow> (Inr res', w3)))
                 else (Inr res, w1)) of
             (Inl err, w') \<Rightarrow> (Inl err, w')
           | (Inr res, w') \<Rightarrow>
               if StatusCode res \<noteq> 200 then (Inl (unexpected_status (StatusCode res)), w')
               else (ParseResponse Decode (Body res), w')))"

definition Do ::
  "('w, 'k, 'r, 'n) env \<Rightarrow> 'k client \<Rightarrow> 'r \<Rightarrow> 'w \<Rightarrow> (error + 'n response) \<times> 'w" where
  "Do E c req w = Do_with (sendRequest E c req) (login E c) (json_Decode E) w"

text \<open>
  A call that is recorded: the state of the world is paired with the list of the calls
  made so far, and \<open>recorded ev f\<close> is \<open>f\<close> that adds \<open>ev\<close> to the list.
\<close>

datatype call = SendRequest | Login

definition recorded :: "call \<Rightarrow> ('w \<Rightarrow> 'a \<times> 'w) \<Rightarrow> 'w \<times> call list \<Rightarrow> 'a \<times> 'w \<times> call list" where
  "recorded ev f = (\<lambda>(w, calls). case f w of (x, w') \<Rightarrow> (x, w', calls @ [ev]))"

section \<open>The test server (client_test.go)\<close>

text \<open>
  The two handlers of the test server, as an environment. The state of the world is
  whether the cookie jar of the client holds the session cookie: \<^verbatim>\<open>handleLogin\<close> answers
  200 and sets the cookie for the user \<^verbatim>\<open>test\<close> with the password \<^verbatim>\<open>testpassword\<close>, and
  401 with the rejection reason \<^verbatim>\<open>invalid-password\<close> otherwise; \<^verbatim>\<open>handleJSON\<close> answers 401
  without the cookie. The body it sends and what the decoder makes of it are kept short
  here: the payload is \<^verbatim>\<open>true\<close>.
\<close>

definition handleLogin :: "(string \<times> string list) list \<Rightarrow> bool \<Rightarrow> (error + http_response) \<times> bool" where
  "handleLogin form jar =
     (if form = [(''user'', [''test'']), (''password'', [''testpassword''])] then
        (Inr \<lparr>StatusCode = 200, Header = [''Ipasession'' \<mapsto> [''correct-session-secret'']], Body = []\<rparr>,
         True)
      else
        (Inr \<lparr>StatusCode = 401, Header = [''X-Ipa-Rejection-Reason'' \<mapsto> [''invalid-password'']],
              Body = ''Unauthorized''\<rparr>,
         jar))"

definition handleJSON :: \<open>http_request \<Rightarrow> bool \<Rightarrow> (error + http_response) \<times> bool\<close> where
  \<open>handleJSON req jar =
     (if \<not> jar then (Inr \<lparr>StatusCode = 401, Header = Map.empty, Body = ''Unauthorized''\<rparr>, jar)
      else
        (Inr \<lparr>StatusCode = 200, Header = [''Content-Type'' \<mapsto> [''application/json'']],
              Body = ''{"result":{"result":true}}''\<rparr>,
         jar))\<close>

definition test_env :: \<open>(bool, unit, unit, nat) env\<close> where
  \<open>test_env =
     \<lparr>json_Marshal = (\<lambda>r. Inr ''{"method":"ping","params":[[],{"version":"2.237"}]}''),
      json_Decode =
        (\<lambda>body. if body = ''{"result":{"result":true}}'' then Inr (response_of (IBool True))
                 else Inl (LibraryError ''invalid character'')),
      http_NewRequest =
        (\<lambda>method url body.
           Inr \<lparr>hr_Method = method, hr_URL = url, hr_Header = Map.empty, hr_Body = body\<rparr>),
      client_Do = handleJSON,
      client_PostForm = (\<lambda>url form. handleLogin form),
      spnego_Do = (\<lambda>k req jar. (Inl (LibraryError ''no ticket''), jar))\<rparr>\<close>

definition test_client :: "string \<Rightarrow> unit client" where
  "test_client pw =
     \<lparr>uriBase = ''https://127.0.0.1:8831/ipa'', user = ''test'', password = pw, krb5 = None\<rparr>"

section \<open>Counting and boolean results\<close>

text \<open>
  C7: \<^verbatim>\<open>CountResults\<close> is the length of the payload when the payload is a slice, 0 for the
  empty slice, and -1 when there is no result or the payload is not a slice (nil, a bool,
  a number, a string, a map); -1 is returned for no slice at all.
\<close>

theorem CountResults_spec:
  "CountResults r =
     (case resp_Result r of
        None \<Rightarrow> - 1
      | Some res \<Rightarrow> (case res_Result res of ISlice a \<Rightarrow> int (length a) | _ \<Rightarrow> - 1))
   \<and> (CountResults r = - 1 \<longleftrightarrow> \<not> (\<exists>res a. resp_Result r = Some res \<and> res_Result res = ISlice a))
   \<and> (CountResults r = 0 \<longleftrightarrow> (\<exists>res. resp_Result r = Some res \<and> res_Result res = ISlice []))
   \<and> CountResults (response_of (ISlice [])) = 0
   \<and> CountResults (response_of (IMap m)) = - 1
   \<and> CountResults (response_of (IBool b)) = - 1
   \<and> CountResults no_result = - 1"
  by (auto simp: CountResults_def response_of_def result_of_def no_result_def
           split: option.splits iface.splits)

text \<open>
  C10: \<^verbatim>\<open>BoolResult\<close> returns one bool and nothing else. It is false when there is no
  result, when the payload is the boolean false and when the payload is no boolean at all
  (nil, a number, a string, a slice, a map), and true for the payload true only: the three
  ways of being false give the caller the same value.
\<close>

theorem BoolResult_spec:
  "(BoolResult r \<longleftrightarrow> (\<exists>res. resp_Result r = Some res \<and> res_Result res = IBool True))
   \<and> (BoolResult r = False \<longleftrightarrow>
        resp_Result r = None
        \<or> (\<exists>res. resp_Result r = Some res \<and> res_Result res = IBool False)
        \<or> (\<exists>res. resp_Result r = Some res \<and> (\<forall>b. res_Result res \<noteq> IBool b)))
   \<and> BoolResult no_result = False
   \<and> BoolResult (response_of (IBool False)) = False
   \<and> BoolResult (response_of INil) = False
   \<and> BoolResult (response_of (INum n)) = False
   \<and> BoolResult (response_of (IStr s)) = False
   \<and> BoolResult (response_of (ISlice a)) = False
   \<and> BoolResult (response_of (IMap m)) = False
   \<and> BoolResult (response_of (IBool b)) = b"
  by (auto simp: BoolResult_def response_of_def result_of_def no_result_def
           split: option.splits iface.splits)

section \<open>Both copies of the accessors agree\<close>

lemma Get2_eq_Get: "Get2 r key = Get r key"
  by (simp add: Get2_def Get_def Dict_def lookup_key_def split: option.splits iface.splits)

lemma GetAtIndex2_eq_GetAtIndex: "GetAtIndex2 r index key = GetAtIndex r index key"
  by (simp add: GetAtIndex2_def GetAtIndex_def DictAtIndex_def lookup_key_def
           split: option.splits iface.splits sum.splits)

section \<open>Indexing the payload\<close>

text \<open>
  What \<^verbatim>\<open>DictAtIndex\<close> does on a payload that is a slice, for every index: the guard
  \<^verbatim>\<open>len(a) < index\<close> lets the index \<^verbatim>\<open>len(a)\<close> and every negative index through to
  \<^verbatim>\<open>a[index]\<close>.
\<close>

lemma DictAtIndex_with_payload:
  "DictAtIndex (with_payload r res (ISlice a)) index =
     (if int (length a) < index then Inr None
      else if index < 0 \<or> index = int (length a) then Inl (IndexOutOfRange index (length a))
      else (case a ! nat index of IMap dict \<Rightarrow> Inr (Some dict) | _ \<Rightarrow> Inr None))"
  by (auto simp: DictAtIndex_def with_payload_def slice_index_def)

text \<open>
  C1: on a payload that is a slice \<open>a\<close>, \<^verbatim>\<open>DictAtIndex\<close> and both copies of
  \<^verbatim>\<open>GetAtIndex\<close> do not return absent at the index \<^verbatim>\<open>len(a)\<close> nor at a negative
  index: they panic with an index out of range, as at index 2 of a slice of two maps.
\<close>

theorem DictAtIndex_faults:
  "DictAtIndex (with_payload r res (ISlice a)) (int (length a))
     = Inl (IndexOutOfRange (int (length a)) (length a))
   \<and> DictAtIndex (with_payload r res (ISlice a)) (- 1 - int n)
     = Inl (IndexOutOfRange (- 1 - int n) (length a))
   \<and> GetAtIndex (with_payload r res (ISlice a)) (int (length a)) key
     = Inl (IndexOutOfRange (int (length a)) (length a))
   \<and> GetAtIndex2 (with_payload r res (ISlice a)) (int (length a)) key
     = Inl (IndexOutOfRange (int (length a)) (length a))
   \<and> DictAtIndex (response_of (ISlice [IMap [''dn'' \<mapsto> IStr ''uid=admin''], IMap Map.empty])) 2
     = Inl (IndexOutOfRange 2 2)"
  by (simp add: DictAtIndex_def GetAtIndex_def GetAtIndex2_def with_payload_def response_of_def result_of_def slice_index_def)

section \<open>The string projections\<close>

lemma processString_loop_strings: "processString_loop res (map IStr ss) = (res @ ss, True)"
  by (induction ss arbitrary: res) simp_all

lemma processString_loop_ok:
  "processString_loop res v = (out, True) \<Longrightarrow> \<exists>ss. v = map IStr ss \<and> out = res @ ss"
proof (induction v arbitrary: res)
  case Nil
  then show ?case by simp
next
  case (Cons p ps)
  then obtain s where p: "p = IStr s" by (cases p) simp_all
  with Cons.prems have "processString_loop (res @ [s]) ps = (out, True)" by simp
  from Cons.IH [OF this] obtain ss where "ps = map IStr ss" "out = (res @ [s]) @ ss" by blast
  with p have "p # ps = map IStr (s # ss) \<and> out = res @ (s # ss)" by simp
  then show ?case by (intro exI [of _ "s # ss"])
qed

lemma processString_ok_iff: "processString v = (ss, True) \<longleftrightarrow> v = map IStr ss"
  unfolding processString_def
  using processString_loop_ok [of "[]" v ss] processString_loop_strings [of "[]" ss]
  by auto

lemma processString_fails_iff:
  "\<not> snd (processString v) \<longleftrightarrow> (\<exists>p\<in>set v. \<forall>s. p \<noteq> IStr s)"
proof
  assume f: "\<not> snd (processString v)"
  show "\<exists>p\<in>set v. \<forall>s. p \<noteq> IStr s"
  proof (rule ccontr)
    assume "\<not> (\<exists>p\<in>set v. \<forall>s. p \<noteq> IStr s)"
    then have "\<forall>p\<in>set v. \<exists>s. p = IStr s" by blast
    then have "\<exists>ss. v = map IStr ss"
      by (induction v) (auto simp: map_eq_Cons_conv Cons_eq_map_conv)
    then obtain ss where "v = map IStr ss" ..
    then have "processString v = (ss, True)" by (simp add: processString_ok_iff)
    with f show False by simp
  qed
next
  assume "\<exists>p\<in>set v. \<forall>s. p \<noteq> IStr s"
  then have "\<And>ss. v \<noteq> map IStr ss" by auto
  then have "\<And>ss. processString v \<noteq> (ss, True)" by (simp add: processString_ok_iff)
  then show "\<not> snd (processString v)" by (cases "processString v") auto
qed

text \<open>
  C8: \<^verbatim>\<open>GetStrings\<close> and \<^verbatim>\<open>GetStringsAtIndex\<close> succeed with the strings \<open>ss\<close> exactly
  when the normalised list of the key is these strings, one element each, and fail exactly
  when there is no such list or one of its elements is not a string (at an index,
  \<^verbatim>\<open>GetStringsAtIndex\<close> panics exactly when \<^verbatim>\<open>GetAtIndex\<close> does). \<^verbatim>\<open>GetString\<close> and
  \<^verbatim>\<open>GetStringAtIndex\<close> return the first string of a successful plural result that is
  not empty, and fail when the plural projection fails or returns no string.
\<close>

theorem GetStrings_spec:
  "(GetStrings r key = (ss, True) \<longleftrightarrow> Get r key = Some (map IStr ss))
   \<and> (\<not> snd (GetStrings r key) \<longleftrightarrow>
        Get r key = None \<or> (\<exists>v. Get r key = Some v \<and> (\<exists>p\<in>set v. \<forall>s. p \<noteq> IStr s)))
   \<and> (GetStringsAtIndex r i key = Inr (ss, True) \<longleftrightarrow> GetAtIndex r i key = Inr (Some (map IStr ss)))
   \<and> ((\<exists>res. GetStringsAtIndex r i key = Inr (res, False)) \<longleftrightarrow>
        GetAtIndex r i key = Inr None
        \<or> (\<exists>v. GetAtIndex r i key = Inr (Some v) \<and> (\<exists>p\<in>set v. \<forall>s. p \<noteq> IStr s)))
   \<and> (GetStringsAtIndex r i key = Inl f \<longleftrightarrow> GetAtIndex r i key = Inl f)
   \<and> GetString r key =
        (case GetStrings r key of (s # rest, True) \<Rightarrow> (s, True) | _ \<Rightarrow> ([], False))
   \<and> GetStringAtIndex r i key =
        (case GetStringsAtIndex r i key of
           Inl f \<Rightarrow> Inl f
         | Inr (s # rest, True) \<Rightarrow> Inr (s, True)
         | Inr _ \<Rightarrow> Inr ([], False))"
proof -
  have 1: "GetStrings r key = (ss, True) \<longleftrightarrow> Get r key = Some (map IStr ss)"
    by (simp add: GetStrings_def processString_ok_iff split: option.splits)
  have 2: "\<not> snd (GetStrings r key) \<longleftrightarrow>
        Get r key = None \<or> (\<exists>v. Get r key = Some v \<and> (\<exists>p\<in>set v. \<forall>s. p \<noteq> IStr s))"
    by (simp add: GetStrings_def processString_fails_iff split: option.splits)
  have 3: "GetStringsAtIndex r i key = Inr (ss, True) \<longleftrightarrow> GetAtIndex r i key = Inr (Some (map IStr ss))"
    by (simp add: GetStringsAtIndex_def processString_ok_iff split: option.splits sum.splits)
  have 4: "(\<exists>res. GetStringsAtIndex r i key = Inr (res, False)) \<longleftrightarrow>
        GetAtIndex r i key = Inr None
        \<or> (\<exists>v. GetAtIndex r i key = Inr (Some v) \<and> (\<exists>p\<in>set v. \<forall>s. p \<noteq> IStr s))"
  proof (cases "GetAtIndex r i key")
    case (Inl f)
    then show ?thesis by (simp add: GetStringsAtIndex_def)
  next
    case (Inr g)
    show ?thesis
    proof (cases g)
      case None
      with Inr show ?thesis by (simp add: GetStringsAtIndex_def)
    next
      case (Some v)
      have "(\<exists>res. processString v = (res, False)) \<longleftrightarrow> \<not> snd (processString v)"
        by (cases "processString v") auto
      with Inr Some show ?thesis
        using processString_fails_iff [of v] by (simp add: GetStringsAtIndex_def)
    qed
  qed
  have 5: "GetStringsAtIndex r i key = Inl f \<longleftrightarrow> GetAtIndex r i key = Inl f"
    by (simp add: GetStringsAtIndex_def split: option.splits sum.splits)
  have 6: "GetString r key =
        (case GetStrings r key of (s # rest, True) \<Rightarrow> (s, True) | _ \<Rightarrow> ([], False))"
    by (simp add: GetString_def split: prod.splits list.splits bool.splits)
  have 7: "GetStringAtIndex r i key =
        (case GetStringsAtIndex r i key of
           Inl f \<Rightarrow> Inl f
         | Inr (s # rest, True) \<Rightarrow> Inr (s, True)
         | Inr _ \<Rightarrow> Inr ([], False))"
    by (simp add: GetStringAtIndex_def split: prod.splits list.splits bool.splits sum.splits)
  from 1 2 3 4 5 6 7 show ?thesis by blast
qed

theorem GetStrings_spec_witness:
  "GetStrings (response_of (IMap [''objectclass'' \<mapsto> ISlice [IStr ''top'', IStr ''person'' :: nat iface]]))
     ''objectclass'' = ([''top'', ''person''], True)
   \<and> GetString (response_of (IMap [''objectclass'' \<mapsto> ISlice [IStr ''top'', IStr ''person'' :: nat iface]]))
     ''objectclass'' = (''top'', True)
   \<and> GetStringsAtIndex (response_of (ISlice [IMap [''dn'' \<mapsto> IStr ''uid=admin'' :: nat iface]])) 0 ''dn''
     = Inr ([''uid=admin''], True)
   \<and> GetStringAtIndex (response_of (ISlice [IMap [''dn'' \<mapsto> IStr ''uid=admin'' :: nat iface]])) 0 ''dn''
     = Inr (''uid=admin'', True)"
proof -
  let ?r = "response_of (IMap [''objectclass'' \<mapsto> ISlice [IStr ''top'', IStr ''person'' :: nat iface]])"
  let ?l = "response_of (ISlice [IMap [''dn'' \<mapsto> IStr ''uid=admin'' :: nat iface]])"
  note t = GetStrings_spec [of ?r "''objectclass''" "[''top'', ''person'']" 0]
  note u = GetStrings_spec [of ?l "''dn''" "[''uid=admin'']" 0]
  have g: "Get ?r ''objectclass'' = Some (map IStr [''top'', ''person''])"
    by (simp add: Get_def Dict_def lookup_key_def response_of_def result_of_def)
  have a: "GetAtIndex ?l 0 ''dn'' = Inr (Some (map IStr [''uid=admin'']))"
    by (simp add: GetAtIndex_def DictAtIndex_def slice_index_def lookup_key_def response_of_def
          result_of_def)
  from t g have 1: "GetStrings ?r ''objectclass'' = ([''top'', ''person''], True)" by blast
  from t have "GetString ?r ''objectclass'' =
        (case GetStrings ?r ''objectclass'' of (s # rest, True) \<Rightarrow> (s, True) | _ \<Rightarrow> ([], False))"
    by blast
  with 1 have 2: "GetString ?r ''objectclass'' = (''top'', True)" by simp
  from u a have 3: "GetStringsAtIndex ?l 0 ''dn'' = Inr ([''uid=admin''], True)" by blast
  from u have "GetStringAtIndex ?l 0 ''dn'' =
        (case GetStringsAtIndex ?l 0 ''dn'' of
           Inl f \<Rightarrow> Inl f
         | Inr (s # rest, True) \<Rightarrow> Inr (s, True)
         | Inr _ \<Rightarrow> Inr ([], False))"
    by blast
  with 3 have 4: "GetStringAtIndex ?l 0 ''dn'' = Inr (''uid=admin'', True)" by simp
  from 1 2 3 4 show ?thesis by blast
qed

section \<open>A scalar and the list of that scalar\<close>

lemma lookup_key_wrap:
  "\<forall>a. v \<noteq> ISlice a \<Longrightarrow> lookup_key (d(k \<mapsto> v)) key = lookup_key (d(k \<mapsto> ISlice [v])) key"
  by (cases v) (simp_all add: lookup_key_def)

lemma Get_wrap:
  assumes "\<forall>a. v \<noteq> ISlice a"
  shows "Get (with_payload r res (IMap (d(k \<mapsto> v)))) key
       = Get (with_payload r res (IMap (d(k \<mapsto> ISlice [v])))) key"
  using lookup_key_wrap [OF assms, of d k key]
  by (simp add: Get_def Dict_def with_payload_def)

lemma GetAtIndex_wrap:
  assumes "\<forall>a. v \<noteq> ISlice a"
  shows "GetAtIndex (with_payload r res (ISlice (xs[i := IMap (d(k \<mapsto> v))]))) j key
       = GetAtIndex (with_payload r res (ISlice (xs[i := IMap (d(k \<mapsto> ISlice [v]))]))) j key"
proof (cases "0 \<le> j \<and> j < int (length xs) \<and> nat j = i")
  case True
  then have "i < length xs" by linarith
  with True show ?thesis
    using lookup_key_wrap [OF assms, of d k key]
    by (simp add: GetAtIndex_def DictAtIndex_with_payload)
next
  case False
  then show ?thesis
    by (auto simp: GetAtIndex_def DictAtIndex_with_payload nth_list_update)
qed

text \<open>
  C3: for a value \<open>v\<close> that is not a slice, stored under a key \<open>k\<close> of the payload (a
  map, or a map at any place of a payload that is a slice), every accessor returns the
  same, for every key and every index, whether the entry is \<open>v\<close> itself or the slice of
  the one element \<open>v\<close>: \<^verbatim>\<open>Get\<close> and \<^verbatim>\<open>GetAtIndex\<close> (both copies) and the projections
  to booleans, strings, bytes and times, singular and plural, with and without an index.
\<close>

theorem scalar_and_singleton_agree:
  assumes "\<forall>a. v \<noteq> ISlice a"
  shows "Get (with_payload r res (IMap (d(k \<mapsto> v)))) key
           = Get (with_payload r res (IMap (d(k \<mapsto> ISlice [v])))) key
       \<and> Get2 (with_payload r res (IMap (d(k \<mapsto> v)))) key
           = Get2 (with_payload r res (IMap (d(k \<mapsto> ISlice [v])))) key
       \<and> GetBool (with_payload r res (IMap (d(k \<mapsto> v)))) key
           = GetBool (with_payload r res (IMap (d(k \<mapsto> ISlice [v])))) key
       \<and> GetStrings (with_payload r res (IMap (d(k \<mapsto> v)))) key
           = GetStrings (with_payload r res (IMap (d(k \<mapsto> ISlice [v])))) key
       \<and> GetString (with_payload r res (IMap (d(k \<mapsto> v)))) key
           = GetString (with_payload r res (IMap (d(k \<mapsto> ISlice [v])))) key
       \<and> GetDatas L (with_payload r res (IMap (d(k \<mapsto> v)))) key
           = GetDatas L (with_payload r res (IMap (d(k \<mapsto> ISlice [v])))) key
       \<and> GetData L (with_payload r res (IMap (d(k \<mapsto> v)))) key
           = GetData L (with_payload r res (IMap (d(k \<mapsto> ISlice [v])))) key
       \<and> GetDateTimes L (with_payload r res (IMap (d(k \<mapsto> v)))) key
           = GetDateTimes L (with_payload r res (IMap (d(k \<mapsto> ISlice [v])))) key
       \<and> GetDateTime L (with_payload r res (IMap (d(k \<mapsto> v)))) key
           = GetDateTime L (with_payload r res (IMap (d(k \<mapsto> ISlice [v])))) key
       \<and> GetAtIndex (with_payload r res (ISlice (xs[i := IMap (d(k \<mapsto> v))]))) j key
           = GetAtIndex (with_payload r res (ISlice (xs[i := IMap (d(k \<mapsto> ISlice [v]))]))) j key
       \<and> GetAtIndex2 (with_payload r res (ISlice (xs[i := IMap (d(k \<mapsto> v))]))) j key
           = GetAtIndex2 (with_payload r res (ISlice (xs[i := IMap (d(k \<mapsto> ISlice [v]))]))) j key
       \<and> GetBoolAtIndex (with_payload r res (ISlice (xs[i := IMap (d(k \<mapsto> v))]))) j key
           = GetBoolAtIndex (with_payload r res (ISlice (xs[i := IMap (d(k \<mapsto> ISlice [v]))]))) j key
       \<and> GetStringsAtIndex (with_payload r res (ISlice (xs[i := IMap (d(k \<mapsto> v))]))) j key
           = GetStringsAtIndex (with_payload r res (ISlice (xs[i := IMap (d(k \<mapsto> ISlice [v]))]))) j key
       \<and> GetStringAtIndex (with_payload r res (ISlice (xs[i := IMap (d(k \<mapsto> v))]))) j key
           = GetStringAtIndex (with_payload r res (ISlice (xs[i := IMap (d(k \<mapsto> ISlice [v]))]))) j key
       \<and> GetDatasAtIndex L (with_payload r res (ISlice (xs[i := IMap (d(k \<mapsto> v))]))) j key
           = GetDatasAtIndex L (with_payload r res (ISlice (xs[i := IMap (d(k \<mapsto> ISlice [v]))]))) j key
       \<and> GetDataAtIndex L (with_payload r res (ISlice (xs[i := IMap (d(k \<mapsto> v))]))) j key
           = GetDataAtIndex L (with_payload r res (ISlice (xs[i := IMap (d(k \<mapsto> ISlice [v]))]))) j key
       \<and> GetDateTimesAtIndex L (with_payload r res (ISlice (xs[i := IMap (d(k \<mapsto> v))]))) j key
           = GetDateTimesAtIndex L (with_payload r res (ISlice (xs[i := IMap (d(k \<mapsto> ISlice [v]))]))) j key
       \<and> GetDateTimeAtIndex L (with_payload r res (ISlice (xs[i := IMap (d(k \<mapsto> v))]))) j key
           = GetDateTimeAtIndex L (with_payload r res (ISlice (xs[i := IMap (d(k \<mapsto> ISlice [v]))]))) j key"
  unfolding Get2_eq_Get GetAtIndex2_eq_GetAtIndex
    GetBool_def GetStrings_def GetString_def GetDatas_def GetData_def GetDateTimes_def GetDateTime_def
    GetBoolAtIndex_def GetStringsAtIndex_def GetStringAtIndex_def GetDatasAtIndex_def
    GetDataAtIndex_def GetDateTimesAtIndex_def GetDateTimeAtIndex_def
    Get_wrap [OF assms] GetAtIndex_wrap [OF assms]
  by simp

theorem scalar_and_singleton_agree_witness:
  "(\<forall>a. IStr ''admin'' \<noteq> (ISlice a :: nat iface))
   \<and> GetString (with_payload no_result (result_of INil) (IMap [''uid'' \<mapsto> IStr ''admin'' :: nat iface])) ''uid''
       = (''admin'', True)
   \<and> GetString (with_payload no_result (result_of INil) (IMap [''uid'' \<mapsto> ISlice [IStr ''admin'' :: nat iface]])) ''uid''
       = (''admin'', True)
   \<and> GetStringAtIndex (with_payload no_result (result_of INil)
         (ISlice ([INil, INil][1 := IMap [''uid'' \<mapsto> IStr ''admin'' :: nat iface]]))) 1 ''uid''
       = GetStringAtIndex (with_payload no_result (result_of INil)
         (ISlice ([INil, INil][1 := IMap [''uid'' \<mapsto> ISlice [IStr ''admin'' :: nat iface]]]))) 1 ''uid''"
proof -
  have h: "\<forall>a. IStr ''admin'' \<noteq> (ISlice a :: nat iface)" by simp
  have g: "GetString (with_payload no_result (result_of INil) (IMap [''uid'' \<mapsto> ISlice [IStr ''admin'' :: nat iface]])) ''uid''
       = (''admin'', True)"
    by (simp add: GetString_def GetStrings_def Get_def Dict_def lookup_key_def with_payload_def
          processString_def)
  note t = scalar_and_singleton_agree [OF h, of no_result "result_of INil" Map.empty "''uid''" "''uid''" failing_stdlib "[INil, INil]" 1 1]
  from t have 1: "GetString (with_payload no_result (result_of INil) (IMap [''uid'' \<mapsto> IStr ''admin'' :: nat iface])) ''uid''
      = GetString (with_payload no_result (result_of INil) (IMap [''uid'' \<mapsto> ISlice [IStr ''admin'' :: nat iface]])) ''uid''"
    by (elim conjE)
  from t have 2: "GetStringAtIndex (with_payload no_result (result_of INil)
         (ISlice ([INil, INil][1 := IMap [''uid'' \<mapsto> IStr ''admin'' :: nat iface]]))) 1 ''uid''
       = GetStringAtIndex (with_payload no_result (result_of INil)
         (ISlice ([INil, INil][1 := IMap [''uid'' \<mapsto> ISlice [IStr ''admin'' :: nat iface]]]))) 1 ''uid''"
    by (elim conjE)
  from h g 1 2 show ?thesis by simp
qed

section \<open>Parsing a response\<close>

lemma doPrintf_plain: "CHR ''%'' \<notin> set s \<Longrightarrow> doPrintf s = s"
  by (induction s) auto

lemma ParseResponse_decode_error:
  "Decode body = Inl err \<Longrightarrow> ParseResponse Decode body = Inl err"
  by (simp add: ParseResponse_def)

lemma ParseResponse_error_plain:
  "Decode body = Inr res \<Longrightarrow> resp_Error res = Some e \<Longrightarrow> CHR ''%'' \<notin> set (Message_string e) \<Longrightarrow>
   ParseResponse Decode body = Inl (ErrorString (Message_string e))"
  by (simp add: ParseResponse_def Errorf0_def Sprintf0_def doPrintf_plain)

lemma ParseResponse_no_result:
  "Decode body = Inr res \<Longrightarrow> resp_Error res = None \<Longrightarrow> resp_Result res = None \<Longrightarrow>
   ParseResponse Decode body = Inl (ErrorString ''no result in response'')"
  by (simp add: ParseResponse_def)

lemma ParseResponse_ok:
  "Decode body = Inr res \<Longrightarrow> resp_Error res = None \<Longrightarrow> resp_Result res = Some result \<Longrightarrow>
   ParseResponse Decode body = Inr res"
  by (simp add: ParseResponse_def)

lemma show_int_codes:
  "show_int 1201 = ''1201''" "show_int 1202 = ''1202''" "show_int 1203 = ''1203''"
  "show_int 1204 = ''1204''" "show_int 5000 = ''5000''" "show_int 401 = ''401''"
  "show_int 1 = ''1''"
  by (simp_all add: show_int_def show_nat.simps)

lemma Sprintf0_ex: "Sprintf0 ''E (1): 100%'' = ''E (1): 100%!(NOVERB)''"
  by (simp add: Sprintf0_def one_verb_def argNumber_def width_step_def precision_step_def
        index_step_def)

text \<open>
  C4: for the body \<^verbatim>\<open>{"error":{"name":"E","code":1,"message":"100%"},"result":null}\<close>
  the message of the error \<^verbatim>\<open>ParseResponse\<close> returns is not the text
  \<^verbatim>\<open>E (1): 100%\<close> that \<^verbatim>\<open>Message.string\<close> has built: that text is used as a format, and
  its \<^verbatim>\<open>%\<close> comes out as \<^verbatim>\<open>%!(NOVERB)\<close>.
\<close>

theorem ParseResponse_percent:
  "ParseResponse
     (\<lambda>body. Inr \<lparr>resp_Error = Some \<lparr>msg_Type = ''error'', msg_Message = ''100%'', msg_Code = 1, msg_Name = ''E''\<rparr>,
                 resp_Result = None, resp_Version = [], resp_Principal = []\<rparr>) body
     = (Inl (ErrorString ''E (1): 100%!(NOVERB)'') :: error + nat response)
   \<and> Message_string \<lparr>msg_Type = ''error'', msg_Message = ''100%'', msg_Code = 1, msg_Name = ''E''\<rparr>
     = ''E (1): 100%''"
  by (simp add: ParseResponse_def Errorf0_def Message_string_def show_int_codes Sprintf0_ex)

section \<open>Building a request\<close>

text \<open>
  C5: given a map that is not nil, \<^verbatim>\<open>NewRequest\<close> returns a request with the method it
  was given, whose \<^verbatim>\<open>Params\<close> are the two values: the arguments and the map. After the
  call the map holds \<^verbatim>\<open>version\<close> with the value \<^verbatim>\<open>2.237\<close> of \<^verbatim>\<open>apiVersion\<close>, and
  the request and the map are the same whatever the caller had stored under that key.
\<close>

theorem NewRequest_params:
  "\<exists>req h'. NewRequest h method args (Some a) = Inr (req, h')
     \<and> req_Method req = method
     \<and> length (req_Params req) = 2
     \<and> req_Params req = [PSlice args, PMap (Some a)]
     \<and> h' a ''version'' = Some (IStr apiVersion)
     \<and> h' = h(a := (h a)(''version'' \<mapsto> IStr ''2.237''))
     \<and> NewRequest (h(a := (h a)(''version'' \<mapsto> supplied))) method args (Some a) = Inr (req, h')"
  by (simp add: NewRequest_def apiVersion_def)

text \<open>
  C9: \<^verbatim>\<open>NewRequest\<close> is not total. With the nil map it panics on the assignment and
  returns no request; it returns one exactly when the map is not nil, and then the second
  value of \<^verbatim>\<open>Params\<close> is the caller's own map, which has the entry \<^verbatim>\<open>version\<close> written
  into it, every other map of the store being left as it was.
\<close>

theorem NewRequest_nil_map:
  "NewRequest h method args None = Inl AssignmentToNilMap
   \<and> ((\<exists>x. NewRequest h method args parms = Inr x) \<longleftrightarrow> parms \<noteq> None)
   \<and> (NewRequest h method args parms = Inr (req, h') \<longrightarrow>
        (\<exists>a. parms = Some a
           \<and> req_Params req = [PSlice args, PMap (Some a)]
           \<and> h' a = (h a)(''version'' \<mapsto> IStr apiVersion)
           \<and> (\<forall>b. b \<noteq> a \<longrightarrow> h' b = h b)))"
  by (auto simp: NewRequest_def split: option.splits)

theorem NewRequest_nil_map_witness:
  "NewRequest (\<lambda>a. Map.empty) ''user_find'' [IStr ''''] (Some 0)
     = Inr (\<lparr>req_Method = ''user_find'', req_Params = [PSlice [IStr ''''], PMap (Some 0)]\<rparr>,
            (\<lambda>a. Map.empty)(0 := [''version'' \<mapsto> (IStr ''2.237'' :: nat iface)]))
   \<and> (\<exists>a. Some (0::nat) = Some a
         \<and> ((\<lambda>a. Map.empty)(0 := [''version'' \<mapsto> (IStr ''2.237'' :: nat iface)])) a
             = [''version'' \<mapsto> IStr apiVersion])"
proof -
  have run: "NewRequest (\<lambda>a. Map.empty) ''user_find'' [IStr ''''] (Some 0)
     = Inr (\<lparr>req_Method = ''user_find'', req_Params = [PSlice [IStr ''''], PMap (Some 0)]\<rparr>,
            (\<lambda>a. Map.empty)(0 := [''version'' \<mapsto> (IStr ''2.237'' :: nat iface)]))"
    by (simp add: NewRequest_def apiVersion_def)
  from NewRequest_nil_map [of "\<lambda>a. Map.empty" "''user_find''" "[IStr '''']" "Some 0"
      "\<lparr>req_Method = ''user_find'', req_Params = [PSlice [IStr ''''], PMap (Some 0)]\<rparr>"
      "(\<lambda>a. Map.empty)(0 := [''version'' \<mapsto> (IStr ''2.237'' :: nat iface)])"] run
  show ?thesis by auto
qed

section \<open>Rejected logins\<close>

lemma unauthorizedHTTPError_table:
  "unauthorizedHTTPError resp =
     (let reason = Header_Get (Header resp) ''X-Ipa-Rejection-Reason'';
          code = (if reason = ''password-expired'' then ''1202''
                  else if reason = ''invalid-password'' then ''1201''
                  else if reason = ''krbprincipal-expired'' then ''1203''
                  else if reason = ''user-locked'' then ''1204''
                  else ''5000'')
      in ErrorString (''unauthorized response <'' @ reason @ ''> ('' @ code @ '')''))"
  by (simp add: unauthorizedHTTPError_def Let_def rejectionReasonHTTPHeader_def
        passwordExpiredUnauthorizedReason_def invalidSessionPasswordUnauthorizedReason_def
        krbPrincipalExpiredUnauthorizedReason_def userLockedUnauthorizedReason_def
        PasswordExpiredCode_def InvalidSessionPasswordCode_def KrbPrincipalExpiredCode_def
        UserLockedCode_def GenericErrorCode_def show_int_codes)

text \<open>
  C6: when the login with a password is answered with the status 401, \<^verbatim>\<open>login\<close> returns
  the error of \<^verbatim>\<open>unauthorizedHTTPError\<close>, whose message is
  \<^verbatim>\<open>unauthorized response <reason> (code)\<close> with the value of the header
  \<^verbatim>\<open>X-Ipa-Rejection-Reason\<close> as the reason (the empty string when the header is missing)
  and the code 1202 for \<^verbatim>\<open>password-expired\<close>, 1201 for \<^verbatim>\<open>invalid-password\<close>, 1203 for
  \<^verbatim>\<open>krbprincipal-expired\<close>, 1204 for \<^verbatim>\<open>user-locked\<close> and 5000 for every other reason.
\<close>

theorem login_unauthorized_reason:
  assumes "krb5 c = None"
    and "client_PostForm E (uriBase c @ ''/session/login_password'')
           [(''user'', [user c]), (''password'', [password c])] w = (Inr res, w')"
    and "StatusCode res = 401"
  shows "login E c w = (Some (unauthorizedHTTPError res), w')
    \<and> unauthorizedHTTPError res =
       (let reason = Header_Get (Header res) ''X-Ipa-Rejection-Reason'';
            code = (if reason = ''password-expired'' then 1202
                    else if reason = ''invalid-password'' then 1201
                    else if reason = ''krbprincipal-expired'' then 1203
                    else if reason = ''user-locked'' then 1204
                    else 5000)
        in ErrorString (''unauthorized response <'' @ reason @ ''> ('' @ show_int code @ '')''))
    \<and> show_int 1202 = ''1202'' \<and> show_int 1201 = ''1201'' \<and> show_int 1203 = ''1203''
    \<and> show_int 1204 = ''1204'' \<and> show_int 5000 = ''5000''"
proof (intro conjI)
  show "login E c w = (Some (unauthorizedHTTPError res), w')"
    using assms by (simp add: login_def)
  show "unauthorizedHTTPError res =
       (let reason = Header_Get (Header res) ''X-Ipa-Rejection-Reason'';
            code = (if reason = ''password-expired'' then 1202
                    else if reason = ''invalid-password'' then 1201
                    else if reason = ''krbprincipal-expired'' then 1203
                    else if reason = ''user-locked'' then 1204
                    else 5000)
        in ErrorString (''unauthorized response <'' @ reason @ ''> ('' @ show_int code @ '')''))"
    by (simp add: unauthorizedHTTPError_def Let_def rejectionReasonHTTPHeader_def
        passwordExpiredUnauthorizedReason_def invalidSessionPasswordUnauthorizedReason_def
        krbPrincipalExpiredUnauthorizedReason_def userLockedUnauthorizedReason_def
        PasswordExpiredCode_def InvalidSessionPasswordCode_def KrbPrincipalExpiredCode_def
        UserLockedCode_def GenericErrorCode_def)
qed (rule show_int_codes)+

theorem login_unauthorized_reason_witness:
  "login test_env (test_client ''wrong-password'') False
     = (Some (ErrorString ''unauthorized response <invalid-password> (1201)''), False)"
proof -
  let ?res = "\<lparr>StatusCode = 401, Header = [''X-Ipa-Rejection-Reason'' \<mapsto> [''invalid-password'']],
              Body = ''Unauthorized''\<rparr>"
  have 1: "krb5 (test_client ''wrong-password'') = None" by (simp add: test_client_def)
  have 2: "client_PostForm test_env (uriBase (test_client ''wrong-password'') @ ''/session/login_password'')
           [(''user'', [user (test_client ''wrong-password'')]),
            (''password'', [password (test_client ''wrong-password'')])] False = (Inr ?res, False)"
    by (simp add: test_env_def test_client_def handleLogin_def)
  have 3: "StatusCode ?res = 401" by simp
  from login_unauthorized_reason [OF 1 2 3] show ?thesis
    by (simp add: Header_Get_def show_int_codes)
qed

section \<open>One new login after a 401\<close>

lemma renewed_login_distinct:
  "ErrorString (''renewed login failed: '' @ m) \<noteq> unexpected_status code"
  "ErrorString (''renewed login failed: '' @ m) \<noteq> unauthorizedHTTPError resp"
  by (simp_all add: unexpected_status_def unauthorizedHTTPError_def Let_def)

lemma Do_with_relogin_fails:
  assumes "send w = (Inr res, w1)" "StatusCode res = 401" "relogin w1 = (Some err, w2)"
  shows "Do_with send relogin Decode w
       = (Inl (ErrorString (''renewed login failed: '' @ error_message err)), w2)"
  using assms by (simp add: Do_with_def)

lemma Do_with_resend:
  assumes "send w = (Inr res, w1)" "StatusCode res = 401" "relogin w1 = (None, w2)"
    "send w2 = (out, w3)"
  shows "Do_with send relogin Decode w
       = ((case out of
             Inl err \<Rightarrow> Inl err
           | Inr res2 \<Rightarrow>
               if StatusCode res2 \<noteq> 200 then Inl (unexpected_status (StatusCode res2))
               else ParseResponse Decode (Body res2)), w3)"
  using assms by (cases out) (simp_all add: Do_with_def)

lemma recorded_apply: "f w = (x, w') \<Longrightarrow> recorded ev f (w, calls) = (x, w', calls @ [ev])"
  by (simp add: recorded_def)

text \<open>
  C2: when the first \<^verbatim>\<open>sendRequest\<close> of \<^verbatim>\<open>Do\<close> is answered with the status 401, the
  client calls \<^verbatim>\<open>login\<close> once. If the login fails, \<^verbatim>\<open>Do\<close> fails with
  \<^verbatim>\<open>renewed login failed:\<close> followed by the message of the error of the login, which is
  no error of an unexpected status and no error of a rejected login, and the calls made
  are one send and one login. If the login succeeds, the request is sent once more and
  \<^verbatim>\<open>Do\<close> returns what that second send gives: its error, an unexpected status for every
  status but 200 (so for a second 401), the parsed body otherwise; the calls made are a
  send, a login and a send, and no more.
\<close>

theorem Do_relogin_once:
  assumes "sendRequest E c req w = (Inr res, w1)" and "StatusCode res = 401"
  shows "(\<forall>err w2. login E c w1 = (Some err, w2) \<longrightarrow>
            Do E c req w = (Inl (ErrorString (''renewed login failed: '' @ error_message err)), w2)
          \<and> Do_with (recorded SendRequest (sendRequest E c req)) (recorded Login (login E c))
               (json_Decode E) (w, [])
              = (Inl (ErrorString (''renewed login failed: '' @ error_message err)),
                 w2, [SendRequest, Login])
          \<and> (\<forall>code. ErrorString (''renewed login failed: '' @ error_message err)
                 \<noteq> unexpected_status code)
          \<and> (\<forall>resp. ErrorString (''renewed login failed: '' @ error_message err)
                 \<noteq> unauthorizedHTTPError resp))
       \<and> (\<forall>w2 out w3. login E c w1 = (None, w2) \<and> sendRequest E c req w2 = (out, w3) \<longrightarrow>
            Do E c req w =
              ((case out of
                  Inl err \<Rightarrow> Inl err
                | Inr res2 \<Rightarrow>
                    if StatusCode res2 \<noteq> 200 then Inl (unexpected_status (StatusCode res2))
                    else ParseResponse (json_Decode E) (Body res2)), w3)
          \<and> Do_with (recorded SendRequest (sendRequest E c req)) (recorded Login (login E c))
               (json_Decode E) (w, [])
              = ((case out of
                    Inl err \<Rightarrow> Inl err
                  | Inr res2 \<Rightarrow>
                      if StatusCode res2 \<noteq> 200 then Inl (unexpected_status (StatusCode res2))
                      else ParseResponse (json_Decode E) (Body res2)),
                 w3, [SendRequest, Login, SendRequest]))
       \<and> unexpected_status 401 = ErrorString ''unexpected http status code: 401''"
proof (intro conjI allI impI)
  fix err w2
  assume l: "login E c w1 = (Some err, w2)"
  show "Do E c req w = (Inl (ErrorString (''renewed login failed: '' @ error_message err)), w2)"
    unfolding Do_def using assms l by (rule Do_with_relogin_fails)
  have s: "recorded SendRequest (sendRequest E c req) (w, []) = (Inr res, w1, [] @ [SendRequest])"
    using assms(1) by (rule recorded_apply)
  have r: "recorded Login (login E c) (w1, [] @ [SendRequest])
             = (Some err, w2, ([] @ [SendRequest]) @ [Login])"
    using l by (rule recorded_apply)
  from Do_with_relogin_fails [where send = "recorded SendRequest (sendRequest E c req)"
      and relogin = "recorded Login (login E c)" and w = "(w, [])", OF s assms(2) r]
  show "Do_with (recorded SendRequest (sendRequest E c req)) (recorded Login (login E c))
               (json_Decode E) (w, [])
              = (Inl (ErrorString (''renewed login failed: '' @ error_message err)),
                 w2, [SendRequest, Login])"
    by simp
next
  fix err :: error and code
  show "ErrorString (''renewed login failed: '' @ error_message err) \<noteq> unexpected_status code"
    by (rule renewed_login_distinct)
next
  fix err :: error and resp
  show "ErrorString (''renewed login failed: '' @ error_message err) \<noteq> unauthorizedHTTPError resp"
    by (rule renewed_login_distinct)
next
  fix w2 out w3
  assume "login E c w1 = (None, w2) \<and> sendRequest E c req w2 = (out, w3)"
  then have l: "login E c w1 = (None, w2)" and s2: "sendRequest E c req w2 = (out, w3)"
    by simp_all
  show "Do E c req w =
              ((case out of
                  Inl err \<Rightarrow> Inl err
                | Inr res2 \<Rightarrow>
                    if StatusCode res2 \<noteq> 200 then Inl (unexpected_status (StatusCode res2))
                    else ParseResponse (json_Decode E) (Body res2)), w3)"
    unfolding Do_def using assms l s2 by (rule Do_with_resend)
  have s: "recorded SendRequest (sendRequest E c req) (w, []) = (Inr res, w1, [] @ [SendRequest])"
    using assms(1) by (rule recorded_apply)
  have r: "recorded Login (login E c) (w1, [] @ [SendRequest])
             = (None, w2, ([] @ [SendRequest]) @ [Login])"
    using l by (rule recorded_apply)
  have s': "recorded SendRequest (sendRequest E c req) (w2, ([] @ [SendRequest]) @ [Login])
             = (out, w3, (([] @ [SendRequest]) @ [Login]) @ [SendRequest])"
    using s2 by (rule recorded_apply)
  from Do_with_resend [where send = "recorded SendRequest (sendRequest E c req)"
      and relogin = "recorded Login (login E c)" and w = "(w, [])", OF s assms(2) r s']
  show "Do_with (recorded SendRequest (sendRequest E c req)) (recorded Login (login E c))
               (json_Decode E) (w, [])
              = ((case out of
                    Inl err \<Rightarrow> Inl err
                  | Inr res2 \<Rightarrow>
                      if StatusCode res2 \<noteq> 200 then Inl (unexpected_status (StatusCode res2))
                      else ParseResponse (json_Decode E) (Body res2)),
                 w3, [SendRequest, Login, SendRequest])"
    by simp
next
  show "unexpected_status 401 = ErrorString ''unexpected http status code: 401''"
    by (simp add: unexpected_status_def show_int_codes)
qed


text \<open>The test server, asked without the session cookie.\<close>

lemma test_first_send:
  "sendRequest test_env (test_client pw) () False
     = (Inr \<lparr>StatusCode = 401, Header = Map.empty, Body = ''Unauthorized''\<rparr>, False)"
  by (simp add: sendRequest_def test_env_def handleJSON_def)

lemma test_second_send:
  \<open>sendRequest test_env (test_client pw) () True
     = (Inr \<lparr>StatusCode = 200, Header = [''Content-Type'' \<mapsto> [''application/json'']],
             Body = ''{"result":{"result":true}}''\<rparr>, True)\<close>
  by (simp add: sendRequest_def test_env_def handleJSON_def)

lemma test_login_ok: "login test_env (test_client ''testpassword'') False = (None, True)"
  by (simp add: login_def test_env_def test_client_def handleLogin_def)

lemma test_login_rejected:
  "login test_env (test_client ''wrong-password'') False
     = (Some (ErrorString ''unauthorized response <invalid-password> (1201)''), False)"
  by (simp add: login_def test_env_def test_client_def handleLogin_def unauthorizedHTTPError_table
        Header_Get_def)

lemma test_parse:
  \<open>ParseResponse (json_Decode test_env) ''{"result":{"result":true}}'' = Inr (response_of (IBool True))\<close>
  by (simp add: ParseResponse_def test_env_def response_of_def)

theorem Do_relogin_once_witness:
  "Do test_env (test_client ''testpassword'') () False = (Inr (response_of (IBool True)), True)
   \<and> Do_with (recorded SendRequest (sendRequest test_env (test_client ''testpassword'') ()))
        (recorded Login (login test_env (test_client ''testpassword''))) (json_Decode test_env)
        (False, [])
      = (Inr (response_of (IBool True)), True, [SendRequest, Login, SendRequest])
   \<and> Do test_env (test_client ''wrong-password'') () False
      = (Inl (ErrorString
           ''renewed login failed: unauthorized response <invalid-password> (1201)''), False)
   \<and> Do_with (recorded SendRequest (sendRequest test_env (test_client ''wrong-password'') ()))
        (recorded Login (login test_env (test_client ''wrong-password''))) (json_Decode test_env)
        (False, [])
      = (Inl (ErrorString
           ''renewed login failed: unauthorized response <invalid-password> (1201)''),
         False, [SendRequest, Login])"
proof -
  have st: "StatusCode \<lparr>StatusCode = 401, Header = Map.empty, Body = ''Unauthorized''\<rparr> = 401"
    by simp
  note ok = Do_relogin_once [OF test_first_send [of "''testpassword''"] st]
  note bad = Do_relogin_once [OF test_first_send [of "''wrong-password''"] st]
  note ok' = ok [THEN conjunct2, THEN conjunct1, rule_format,
      OF conjI [OF test_login_ok test_second_send [of "''testpassword''"]]]
  from ok'
  have 1: "Do test_env (test_client ''testpassword'') () False = (Inr (response_of (IBool True)), True)"
    and 2: "Do_with (recorded SendRequest (sendRequest test_env (test_client ''testpassword'') ()))
        (recorded Login (login test_env (test_client ''testpassword''))) (json_Decode test_env)
        (False, [])
      = (Inr (response_of (IBool True)), True, [SendRequest, Login, SendRequest])"
    by (simp_all add: test_parse)
  note bad' = bad [THEN conjunct1, rule_format, OF test_login_rejected]
  from bad'
  have 3: "Do test_env (test_client ''wrong-password'') () False
      = (Inl (ErrorString
           ''renewed login failed: unauthorized response <invalid-password> (1201)''), False)"
    and 4: "Do_with (recorded SendRequest (sendRequest test_env (test_client ''wrong-password'') ()))
        (recorded Login (login test_env (test_client ''wrong-password''))) (json_Decode test_env)
        (False, [])
      = (Inl (ErrorString
           ''renewed login failed: unauthorized response <invalid-password> (1201)''),
         False, [SendRequest, Login])"
    by simp_all
  from 1 2 3 4 show ?thesis by blast
qed

end
